theory Spec2Isabelle
  imports Main
begin

section \<open>Python values, dictionaries and exceptions\<close>

text \<open>
  The embedding follows \<^verbatim>\<open>src/custom_logic.py\<close>. Text is a list of characters, one
  \<^typ>\<open>char\<close> per code point below 256. Python integers are unbounded, so they are
  \<^typ>\<open>int\<close>. A \<^verbatim>\<open>decimal.Decimal\<close> is its sign, coefficient and exponent, or one of
  the special values.
\<close>

datatype decimal =
    Finite bool nat int
  | Infinity bool
  | NaN bool bool string

datatype pyval =
    PyNone
  | PyStr string
  | PyInt int
  | PyBool bool
  | PyDecimal decimal

type_synonym pydict = "(string \<times> pyval) list"

text \<open>
  The exception classes the handlers of the source tell apart. \<open>CobolParsingError\<close> is
  declared as a subclass of \<open>ValueError\<close>; \<open>BaseExceptionOnly\<close> stands for what is raised
  without deriving from \<open>Exception\<close>, which no \<^verbatim>\<open>except Exception\<close> clause catches.
\<close>

datatype exc_class =
    CobolParsingError
  | ValueError
  | KeyError
  | FileNotFoundError
  | TypeError
  | InvalidOperation
  | OtherException
  | BaseExceptionOnly

datatype pyexc = PyExc exc_class string

fun exc_class_of :: "pyexc \<Rightarrow> exc_class" where
  "exc_class_of (PyExc c m) = c"

fun exc_str :: "pyexc \<Rightarrow> string" where
  "exc_str (PyExc c m) = m"

definition isinstance_ValueError :: "pyexc \<Rightarrow> bool" where
  "isinstance_ValueError e =
     (exc_class_of e = CobolParsingError \<or> exc_class_of e = ValueError)"

definition isinstance_KeyError :: "pyexc \<Rightarrow> bool" where
  "isinstance_KeyError e = (exc_class_of e = KeyError)"

definition isinstance_FileNotFoundError :: "pyexc \<Rightarrow> bool" where
  "isinstance_FileNotFoundError e = (exc_class_of e = FileNotFoundError)"

definition isinstance_Exception :: "pyexc \<Rightarrow> bool" where
  "isinstance_Exception e = (exc_class_of e \<noteq> BaseExceptionOnly)"

subsection \<open>Dictionary operations\<close>

text \<open>
  A \<^verbatim>\<open>dict\<close> keeps insertion order: assigning to a present key keeps its place,
  assigning to a new key appends it.
\<close>

fun dict_set :: "pydict \<Rightarrow> string \<Rightarrow> pyval \<Rightarrow> pydict" where
  "dict_set [] k v = [(k, v)]"
| "dict_set ((k', v') # d) k v =
     (if k' = k then (k, v) # d else (k', v') # dict_set d k v)"

definition dict_get :: "pydict \<Rightarrow> string \<Rightarrow> pyval" where
  \<comment> \<open>\<^verbatim>\<open>d.get(k)\<close>: \<^verbatim>\<open>None\<close> when the key is missing\<close>
  "dict_get d k = (case map_of d k of None \<Rightarrow> PyNone | Some v \<Rightarrow> v)"

definition dict_contains :: "pydict \<Rightarrow> string \<Rightarrow> bool" where
  "dict_contains d k = (map_of d k \<noteq> None)"

subsection \<open>Text of numbers\<close>

definition digit_char :: "nat \<Rightarrow> char" where
  "digit_char d = ''0123456789'' ! d"

fun nat_str :: "nat \<Rightarrow> string" where
  "nat_str n = (if n < 10 then [digit_char n] else nat_str (n div 10) @ [digit_char (n mod 10)])"

declare nat_str.simps [simp del]

definition int_str :: "int \<Rightarrow> string" where
  "int_str i = (if i < 0 then CHR ''-'' # nat_str (nat (- i)) else nat_str (nat i))"

text \<open>
  \<^verbatim>\<open>Decimal.__str__\<close>: the scientific string of the General Decimal Arithmetic
  specification. \<open>leftdigits\<close> is the number of coefficient digits left of the point.
\<close>

definition signed_int_str :: "int \<Rightarrow> string" where
  \<comment> \<open>the format \<^verbatim>\<open>%+d\<close>\<close>
  "signed_int_str i = (if i < 0 then int_str i else CHR ''+'' # int_str i)"

definition decimal_str :: "decimal \<Rightarrow> string" where
  "decimal_str d =
     (case d of
        Infinity neg \<Rightarrow> (if neg then ''-'' else '''') @ ''Infinity''
      | NaN neg signalling payload \<Rightarrow>
          (if neg then ''-'' else '''') @ (if signalling then ''sNaN'' else ''NaN'') @ payload
      | Finite neg coeff e \<Rightarrow>
          (let ds = nat_str coeff;
               leftdigits = e + int (length ds);
               dotplace = (if e \<le> 0 \<and> leftdigits > - 6 then leftdigits else 1);
               intpart = (if dotplace \<le> 0 then ''0''
                          else if dotplace \<ge> int (length ds)
                          then ds @ replicate (nat (dotplace - int (length ds))) CHR ''0''
                          else take (nat dotplace) ds);
               fracpart = (if dotplace \<le> 0
                           then ''.'' @ replicate (nat (- dotplace)) CHR ''0'' @ ds
                           else if dotplace \<ge> int (length ds) then ''''
                           else ''.'' @ drop (nat dotplace) ds);
               exppart = (if leftdigits = dotplace then ''''
                          else ''E'' @ signed_int_str (leftdigits - dotplace))
           in (if neg then ''-'' else '''') @ intpart @ fracpart @ exppart))"

fun py_str :: "pyval \<Rightarrow> string" where
  "py_str PyNone = ''None''"
| "py_str (PyStr s) = s"
| "py_str (PyInt i) = int_str i"
| "py_str (PyBool b) = (if b then ''True'' else ''False'')"
| "py_str (PyDecimal d) = decimal_str d"

subsection \<open>Whitespace\<close>

text \<open>
  \<^verbatim>\<open>str.strip\<close> and \<^verbatim>\<open>str.rstrip\<close> without argument remove the characters for which
  \<^verbatim>\<open>str.isspace\<close> holds; below code point 256 these are the twelve listed.
\<close>

definition whitespace_chars :: "char list" where
  "whitespace_chars =
     [CHR 0x09, CHR 0x0A, CHR 0x0B, CHR 0x0C, CHR 0x0D, CHR 0x1C, CHR 0x1D, CHR 0x1E,
      CHR 0x1F, CHR 0x20, CHR 0x85, CHR 0xA0]"

definition isspace :: "char \<Rightarrow> bool" where
  "isspace c = (c \<in> set whitespace_chars)"

definition lstrip :: "string \<Rightarrow> string" where
  "lstrip s = dropWhile isspace s"

definition rstrip :: "string \<Rightarrow> string" where
  "rstrip s = rev (dropWhile isspace (rev s))"

definition strip :: "string \<Rightarrow> string" where
  "strip s = rstrip (lstrip s)"

subsection \<open>Ordering against a Decimal\<close>

text \<open>
  \<^verbatim>\<open>balance < decimal.Decimal("-500.00")\<close>. Two finite decimals are compared as exact
  integers at their smaller exponent. An ordering comparison with a NaN signals
  \<open>InvalidOperation\<close>, which the default context raises. An \<^verbatim>\<open>int\<close> (and a
  \<^verbatim>\<open>bool\<close>, which is an \<^verbatim>\<open>int\<close>) is converted exactly; for a \<^verbatim>\<open>str\<close> both operands
  return \<^verbatim>\<open>NotImplemented\<close> and the comparison raises \<open>TypeError\<close>.
\<close>

definition quote :: string where
  "quote = [CHR 0x27]"

definition finite_scaled :: "bool \<Rightarrow> nat \<Rightarrow> int \<Rightarrow> int \<Rightarrow> int" where
  "finite_scaled neg coeff e m = (if neg then - 1 else 1) * int coeff * 10 ^ nat (e - m)"

definition invalid_operation :: pyexc where
  "invalid_operation = PyExc InvalidOperation (''[<class '' @ quote @ ''decimal.InvalidOperation'' @ quote @ ''>]'')"

fun decimal_lt :: "decimal \<Rightarrow> decimal \<Rightarrow> pyexc + bool" where
  "decimal_lt (NaN n s p) b = Inl invalid_operation"
| "decimal_lt a (NaN n s p) = Inl invalid_operation"
| "decimal_lt (Finite s1 c1 e1) (Finite s2 c2 e2) =
     Inr (finite_scaled s1 c1 e1 (min e1 e2) < finite_scaled s2 c2 e2 (min e1 e2))"
| "decimal_lt (Infinity n1) (Infinity n2) = Inr (n1 \<and> \<not> n2)"
| "decimal_lt (Infinity n1) (Finite s2 c2 e2) = Inr n1"
| "decimal_lt (Finite s1 c1 e1) (Infinity n2) = Inr (\<not> n2)"

definition unorderable :: "string \<Rightarrow> pyexc" where
  "unorderable tp =
     PyExc TypeError (quote @ ''<'' @ quote @ '' not supported between instances of ''
        @ quote @ tp @ quote @ '' and '' @ quote @ ''decimal.Decimal'' @ quote)"

fun py_lt_decimal :: "pyval \<Rightarrow> decimal \<Rightarrow> pyexc + bool" where
  "py_lt_decimal (PyDecimal a) b = decimal_lt a b"
| "py_lt_decimal (PyInt i) b = decimal_lt (Finite (i < 0) (nat \<bar>i\<bar>) 0) b"
| "py_lt_decimal (PyBool t) b = decimal_lt (Finite False (if t then 1 else 0) 0) b"
| "py_lt_decimal (PyStr s) b = Inl (unorderable ''str'')"
| "py_lt_decimal PyNone b = Inl (unorderable ''NoneType'')"

section \<open>The batch processor\<close>

subsection \<open>What the function takes from outside\<close>

text \<open>
  \<^verbatim>\<open>parse_cobol_line\<close> is imported, not defined in the file; the files are read and
  written through \<^verbatim>\<open>open\<close>, \<^verbatim>\<open>json.load\<close> and \<^verbatim>\<open>json.dump\<close>; \<^verbatim>\<open>str.upper\<close> maps
  some characters outside the 8-bit range. They are the fields of the environment.
  Reading the data file gives the lines iterated before an optional failure of the read.
\<close>

record 'l environment =
  load_layout :: "string \<Rightarrow> pyexc + 'l"
  read_data :: "string \<Rightarrow> pyexc + string list \<times> pyexc option"
  write_text :: "string \<Rightarrow> string \<Rightarrow> pyexc option"
  parse_cobol_line :: "string \<Rightarrow> 'l \<Rightarrow> int \<Rightarrow> pyexc + pydict"
  upper :: "string \<Rightarrow> string"

datatype log_level = INFO | WARNING | ERROR

type_synonym log_record = "log_level \<times> string"

text \<open>
  The error list holds the dictionaries built in the loop and the plain strings appended
  outside of it.
\<close>

datatype err_entry = is_ErrDict: ErrDict pydict | ErrStr string

record proc_state =
  processed_records :: "pydict list"
  processing_errors :: "err_entry list"
  line_count :: int
  log :: "log_record list"

subsection \<open>One record: validation and transformation\<close>

definition valid_statuses :: "pyval list" where
  "valid_statuses = [PyStr ''A'', PyStr ''N'', PyStr ''R'']"

definition balance_threshold :: decimal where
  \<comment> \<open>\<^verbatim>\<open>decimal.Decimal("-500.00")\<close>\<close>
  "balance_threshold = Finite True 50000 (- 2)"

definition balance_warning :: "int \<Rightarrow> pydict \<Rightarrow> pyval \<Rightarrow> log_record" where
  "balance_warning n parsed_record balance =
     (WARNING, ''Line '' @ int_str n @ '', ID '' @ py_str (dict_get parsed_record ''customer_id'')
        @ '': Large negative balance '' @ py_str balance)"

definition invalid_status :: "string \<Rightarrow> pyexc" where
  "invalid_status text = PyExc ValueError (''Invalid status code '' @ quote @ text @ quote)"

text \<open>
  Lines 58 to 78 of the source: the steps between the parse and the append. A value is
  in \<open>valid_statuses\<close> only if it is one of the three strings, and equals \<^verbatim>\<open>'A'\<close> only
  if it is that string, so both tests are equalities of values.
\<close>

definition process_record ::
  "(string \<Rightarrow> string) \<Rightarrow> int \<Rightarrow> pydict \<Rightarrow> pyexc + pydict \<times> log_record list" where
  "process_record str_upper n parsed_record =
     (if dict_get parsed_record ''status_code'' \<notin> set valid_statuses
      then Inl (invalid_status (py_str (dict_get parsed_record ''status_code'')))
      else
        let r1 = (case map_of parsed_record ''customer_name'' of
                    None \<Rightarrow> parsed_record
                  | Some name \<Rightarrow>
                      dict_set parsed_record ''customer_name'' (PyStr (str_upper (py_str name))));
            r2 = dict_set r1 ''is_active''
                   (PyBool (dict_get r1 ''status_code'' = PyStr ''A''));
            balance = dict_get r2 ''account_balance''
        in if balance = PyNone then Inr (r2, [])
           else (case py_lt_decimal balance balance_threshold of
                   Inl e \<Rightarrow> Inl e
                 | Inr below \<Rightarrow>
                     Inr (r2, if below then [balance_warning n r2 balance] else [])))"

definition try_body :: "'l environment \<Rightarrow> 'l \<Rightarrow> int \<Rightarrow> string \<Rightarrow> pyexc + pydict \<times> log_record list" where
  "try_body env layout_config n line =
     (case parse_cobol_line env line layout_config n of
        Inl e \<Rightarrow> Inl e
      | Inr parsed_record \<Rightarrow> process_record (upper env) n parsed_record)"

subsection \<open>The loop over the lines\<close>

definition error_dict :: "int \<Rightarrow> string \<Rightarrow> string \<Rightarrow> err_entry" where
  "error_dict n error_msg line =
     ErrDict [(''line_number'', PyInt n), (''error'', PyStr error_msg),
              (''raw_line'', PyStr (rstrip line))]"

definition record_error_msg :: "int \<Rightarrow> pyexc \<Rightarrow> string" where
  "record_error_msg n e = ''Line '' @ int_str n @ '': Error processing record - '' @ exc_str e"

definition unexpected_error_msg :: "int \<Rightarrow> pyexc \<Rightarrow> string" where
  "unexpected_error_msg n e = ''Line '' @ int_str n @ '': Unexpected error - '' @ exc_str e"

definition record_error :: "proc_state \<Rightarrow> string \<Rightarrow> string \<Rightarrow> proc_state" where
  "record_error st error_msg line =
     st\<lparr>log := log st @ [(ERROR, error_msg)],
        processing_errors := processing_errors st @ [error_dict (line_count st) error_msg line]\<rparr>"

text \<open>
  One iteration, lines 50 to 97: the state after it, and the exception that leaves the
  iteration, which is one that neither handler catches.
\<close>

definition loop_body ::
  "'l environment \<Rightarrow> 'l \<Rightarrow> proc_state \<Rightarrow> string \<Rightarrow> proc_state \<times> pyexc option" where
  "loop_body env layout_config st0 line =
     (let st = st0\<lparr>line_count := line_count st0 + 1\<rparr> in
      if strip line = [] then (st, None)
      else (case try_body env layout_config (line_count st) line of
              Inr (parsed_record, warnings) \<Rightarrow>
                (st\<lparr>log := log st @ warnings,
                    processed_records := processed_records st @ [parsed_record]\<rparr>, None)
            | Inl e \<Rightarrow>
                if isinstance_ValueError e \<or> isinstance_KeyError e
                then (record_error st (record_error_msg (line_count st) e) line, None)
                else if isinstance_Exception e
                then (record_error st (unexpected_error_msg (line_count st) e) line, None)
                else (st, Some e)))"

fun process_lines ::
  "'l environment \<Rightarrow> 'l \<Rightarrow> proc_state \<Rightarrow> string list \<Rightarrow> proc_state \<times> pyexc option" where
  "process_lines env layout_config st [] = (st, None)"
| "process_lines env layout_config st (line # rest) =
     (case loop_body env layout_config st line of
        (st', Some e) \<Rightarrow> (st', Some e)
      | (st', None) \<Rightarrow> process_lines env layout_config st' rest)"

section \<open>The JSON output\<close>

subsection \<open>String literals\<close>

text \<open>
  \<^verbatim>\<open>json.dump\<close> keeps \<^verbatim>\<open>ensure_ascii\<close>: every character outside the range from space
  to tilde is escaped, with a short escape where JSON has one.
\<close>

definition hex_digit :: "nat \<Rightarrow> char" where
  "hex_digit d = ''0123456789abcdef'' ! d"

definition json_escape :: "char \<Rightarrow> string" where
  "json_escape c =
     (if c = CHR 0x22 then [CHR 0x5C, CHR 0x22]
      else if c = CHR 0x5C then [CHR 0x5C, CHR 0x5C]
      else if c = CHR 0x08 then [CHR 0x5C, CHR ''b'']
      else if c = CHR 0x0C then [CHR 0x5C, CHR ''f'']
      else if c = CHR 0x0A then [CHR 0x5C, CHR ''n'']
      else if c = CHR 0x0D then [CHR 0x5C, CHR ''r'']
      else if c = CHR 0x09 then [CHR 0x5C, CHR ''t'']
      else if 0x20 \<le> (of_char c :: nat) \<and> (of_char c :: nat) \<le> 0x7E then [c]
      else [CHR 0x5C, CHR ''u'', CHR ''0'', CHR ''0'',
            hex_digit (of_char c div 16), hex_digit (of_char c mod 16)])"

definition encode_basestring_ascii :: "string \<Rightarrow> string" where
  "encode_basestring_ascii s = [CHR 0x22] @ concat (map json_escape s) @ [CHR 0x22]"

subsection \<open>The encoder class\<close>

fun type_name :: "pyval \<Rightarrow> string" where
  "type_name PyNone = ''NoneType''"
| "type_name (PyStr s) = ''str''"
| "type_name (PyInt i) = ''int''"
| "type_name (PyBool b) = ''bool''"
| "type_name (PyDecimal d) = ''Decimal''"

fun isinstance_Decimal :: "pyval \<Rightarrow> bool" where
  "isinstance_Decimal (PyDecimal d) = True"
| "isinstance_Decimal v = False"

text \<open>
  \<^verbatim>\<open>DecimalEncoder.default\<close>, lines 15 to 19; the default of the base class raises.
\<close>

definition DecimalEncoder_default :: "pyval \<Rightarrow> pyexc + pyval" where
  "DecimalEncoder_default obj =
     (if isinstance_Decimal obj then Inr (PyStr (py_str obj))
      else Inl (PyExc TypeError
                 (''Object of type '' @ type_name obj @ '' is not JSON serializable'')))"

text \<open>
  The encoder writes the values of the types it knows and hands every other object to
  \<open>default\<close>, then encodes what \<open>default\<close> returns.
\<close>

fun encode_known :: "pyval \<Rightarrow> string option" where
  "encode_known PyNone = Some ''null''"
| "encode_known (PyBool b) = Some (if b then ''true'' else ''false'')"
| "encode_known (PyInt i) = Some (int_str i)"
| "encode_known (PyStr s) = Some (encode_basestring_ascii s)"
| "encode_known (PyDecimal d) = None"

function iterencode :: "pyval \<Rightarrow> pyexc + string" where
  "iterencode obj =
     (case encode_known obj of
        Some text \<Rightarrow> Inr text
      | None \<Rightarrow>
          (case DecimalEncoder_default obj of
             Inl e \<Rightarrow> Inl e
           | Inr obj' \<Rightarrow> iterencode obj'))"
  by pat_completeness auto
termination
  by (relation "measure (\<lambda>obj. if encode_known obj = None then 1 else 0)")
     (auto simp: DecimalEncoder_default_def split: if_splits)

declare iterencode.simps [simp del]

subsection \<open>Lists and dictionaries with \<^verbatim>\<open>indent=2\<close>\<close>

fun collect :: "('e + 'a) list \<Rightarrow> 'e + 'a list" where
  "collect [] = Inr []"
| "collect (x # xs) =
     (case x of
        Inl e \<Rightarrow> Inl e
      | Inr v \<Rightarrow> (case collect xs of Inl e \<Rightarrow> Inl e | Inr vs \<Rightarrow> Inr (v # vs)))"

fun join :: "string \<Rightarrow> string list \<Rightarrow> string" where
  "join sep [] = []"
| "join sep [x] = x"
| "join sep (x # y # ys) = x @ sep @ join sep (y # ys)"

definition newline_indent :: "nat \<Rightarrow> string" where
  "newline_indent level = CHR 0x0A # replicate (2 * level) CHR '' ''"

definition iterencode_item :: "string \<times> pyval \<Rightarrow> pyexc + string" where
  "iterencode_item kv =
     (case iterencode (snd kv) of
        Inl e \<Rightarrow> Inl e
      | Inr text \<Rightarrow> Inr (encode_basestring_ascii (fst kv) @ '': '' @ text))"

definition iterencode_dict :: "nat \<Rightarrow> pydict \<Rightarrow> pyexc + string" where
  "iterencode_dict level dct =
     (if dct = [] then Inr ''{}''
      else (case collect (map iterencode_item dct) of
              Inl e \<Rightarrow> Inl e
            | Inr items \<Rightarrow>
                Inr (''{'' @ newline_indent (level + 1)
                       @ join ('','' @ newline_indent (level + 1)) items
                       @ newline_indent level @ ''}'')))"

definition iterencode_list :: "nat \<Rightarrow> pydict list \<Rightarrow> pyexc + string" where
  "iterencode_list level lst =
     (if lst = [] then Inr ''[]''
      else (case collect (map (iterencode_dict (level + 1)) lst) of
              Inl e \<Rightarrow> Inl e
            | Inr items \<Rightarrow>
                Inr (''['' @ newline_indent (level + 1)
                       @ join ('','' @ newline_indent (level + 1)) items
                       @ newline_indent level @ '']'')))"

definition json_dump :: "pydict list \<Rightarrow> pyexc + string" where
  \<comment> \<open>\<^verbatim>\<open>json.dump(processed_records, f_out, indent=2, cls=DecimalEncoder)\<close>\<close>
  "json_dump records = iterencode_list 0 records"

section \<open>The whole function\<close>

type_synonym outcome = "(pyexc + pydict list option \<times> err_entry list) \<times> log_record list"

text \<open>The handlers of the outer \<^verbatim>\<open>try\<close>, lines 100 to 105.\<close>

definition outer_handler :: "string \<Rightarrow> log_record list \<Rightarrow> pyexc \<Rightarrow> outcome" where
  "outer_handler cobol_data_path lg e =
     (if isinstance_FileNotFoundError e
      then (Inr (None, [ErrStr (''Data File Not Found: '' @ cobol_data_path)]),
            lg @ [(ERROR, ''Data file not found: '' @ cobol_data_path)])
      else if isinstance_Exception e
      then (Inr (None, [ErrStr (''File Processing Error: '' @ exc_str e)]),
            lg @ [(ERROR, ''Failed during file processing: '' @ exc_str e)])
      else (Inl e, lg))"

text \<open>
  Lines 107 to 121. An output path that is \<^verbatim>\<open>None\<close> or empty is false in the test of
  line 110. The text is encoded and written, then a newline; an exception of the encoder or
  of the file is caught by the one handler.
\<close>

definition write_records :: "'l environment \<Rightarrow> string \<Rightarrow> pydict list \<Rightarrow> pyexc option" where
  "write_records env path records =
     (case json_dump records of
        Inl e \<Rightarrow> Some e
      | Inr text \<Rightarrow> write_text env path (text @ [CHR 0x0A]))"

definition completed :: "proc_state \<Rightarrow> outcome" where
  "completed st = (Inr (Some (processed_records st), processing_errors st), log st)"

definition finish :: "'l environment \<Rightarrow> string option \<Rightarrow> proc_state \<Rightarrow> outcome" where
  "finish env output_json_path st0 =
     (let n = int_str (int (length (processed_records st0)));
          st = st0\<lparr>log := log st0 @
                 [(INFO, ''Finished processing. Parsed: '' @ n @ '' records. Errors: ''
                     @ int_str (int (length (processing_errors st0))) @ '' lines.'')]\<rparr>
      in (case output_json_path of
            None \<Rightarrow> completed st
          | Some path \<Rightarrow>
              if path = [] then completed st
              else (case write_records env path (processed_records st) of
                      None \<Rightarrow>
                        completed (st\<lparr>log := log st @
                          [(INFO, ''Successfully wrote '' @ n @ '' records to '' @ path)]\<rparr>)
                    | Some e \<Rightarrow>
                        if isinstance_Exception e
                        then completed (st\<lparr>log := log st @
                               [(ERROR, ''Failed to write output JSON to '' @ quote @ path
                                   @ quote @ '': '' @ exc_str e)],
                               processing_errors := processing_errors st @
                                 [ErrStr (''JSON Output Error: '' @ exc_str e)]\<rparr>)
                        else (Inl e, log st))))"

definition initial_state :: "log_record list \<Rightarrow> proc_state" where
  "initial_state lg =
     \<lparr>processed_records = [], processing_errors = [], line_count = 0, log = lg\<rparr>"

definition advanced_cobol_processor ::
  "'l environment \<Rightarrow> string \<Rightarrow> string \<Rightarrow> string option \<Rightarrow> outcome" where
  "advanced_cobol_processor env layout_path cobol_data_path output_json_path =
     (case load_layout env layout_path of
        Inl e \<Rightarrow>
          if isinstance_Exception e
          then (Inr (None, [ErrStr (''Layout Load Error: '' @ exc_str e)]),
                [(ERROR, ''Failed to load layout file '' @ quote @ layout_path @ quote
                    @ '': '' @ exc_str e)])
          else (Inl e, [])
      | Inr layout_config \<Rightarrow>
          (let lg = [(INFO, ''Loaded layout from '' @ layout_path)] in
           case read_data env cobol_data_path of
             Inl e \<Rightarrow> outer_handler cobol_data_path lg e
           | Inr (lines, failure) \<Rightarrow>
               (case process_lines env layout_config
                       (initial_state
                          (lg @ [(INFO, ''Processing data file '' @ cobol_data_path @ ''...'')]))
                       lines of
                  (st, Some e) \<Rightarrow> outer_handler cobol_data_path (log st) e
                | (st, None) \<Rightarrow>
                    (case failure of
                       Some e \<Rightarrow> outer_handler cobol_data_path (log st) e
                     | None \<Rightarrow> finish env output_json_path st))))"

section \<open>What each line contributes\<close>

text \<open>
  The message the handlers of lines 80 to 97 build for an exception, and the entries and
  records one line adds. They serve to describe the result of the loop.
\<close>

definition line_message :: "int \<Rightarrow> pyexc \<Rightarrow> string" where
  "line_message n e =
     (if isinstance_ValueError e \<or> isinstance_KeyError e then record_error_msg n e
      else unexpected_error_msg n e)"

definition line_errors :: "'l environment \<Rightarrow> 'l \<Rightarrow> int \<Rightarrow> string \<Rightarrow> err_entry list" where
  "line_errors env layout_config n line =
     (if strip line = [] then []
      else (case try_body env layout_config n line of
              Inl e \<Rightarrow> [error_dict n (line_message n e) line]
            | Inr rw \<Rightarrow> []))"

definition line_records :: "'l environment \<Rightarrow> 'l \<Rightarrow> int \<Rightarrow> string \<Rightarrow> pydict list" where
  "line_records env layout_config n line =
     (if strip line = [] then []
      else (case try_body env layout_config n line of
              Inl e \<Rightarrow> []
            | Inr rw \<Rightarrow> [fst rw]))"

definition line_warnings :: "'l environment \<Rightarrow> 'l \<Rightarrow> int \<Rightarrow> string \<Rightarrow> log_record list" where
  "line_warnings env layout_config n line =
     (if strip line = [] then []
      else (case try_body env layout_config n line of
              Inl e \<Rightarrow> [(ERROR, line_message n e)]
            | Inr rw \<Rightarrow> snd rw))"

fun errors_from :: "'l environment \<Rightarrow> 'l \<Rightarrow> int \<Rightarrow> string list \<Rightarrow> err_entry list" where
  "errors_from env layout_config n [] = []"
| "errors_from env layout_config n (line # rest) =
     line_errors env layout_config (n + 1) line @ errors_from env layout_config (n + 1) rest"

fun records_from :: "'l environment \<Rightarrow> 'l \<Rightarrow> int \<Rightarrow> string list \<Rightarrow> pydict list" where
  "records_from env layout_config n [] = []"
| "records_from env layout_config n (line # rest) =
     line_records env layout_config (n + 1) line @ records_from env layout_config (n + 1) rest"

fun log_from :: "'l environment \<Rightarrow> 'l \<Rightarrow> int \<Rightarrow> string list \<Rightarrow> log_record list" where
  "log_from env layout_config n [] = []"
| "log_from env layout_config n (line # rest) =
     line_warnings env layout_config (n + 1) line @ log_from env layout_config (n + 1) rest"

text \<open>No line raises anything but an \<open>Exception\<close>: the condition under which the loop ends.\<close>

definition only_exceptions :: "'l environment \<Rightarrow> 'l \<Rightarrow> string list \<Rightarrow> bool" where
  "only_exceptions env layout_config lines =
     (\<forall>i < length lines. \<forall>e.
        parse_cobol_line env (lines ! i) layout_config (int i + 1) = Inl e
          \<longrightarrow> isinstance_Exception e)"

text \<open>What lines 110 to 118 append to the error list.\<close>

definition output_errors :: "'l environment \<Rightarrow> string option \<Rightarrow> pydict list \<Rightarrow> err_entry list" where
  "output_errors env output_json_path records =
     (case output_json_path of
        None \<Rightarrow> []
      | Some path \<Rightarrow>
          if path = [] then []
          else (case write_records env path records of
                  None \<Rightarrow> []
                | Some e \<Rightarrow> [ErrStr (''JSON Output Error: '' @ exc_str e)]))"

section \<open>A sample run\<close>

text \<open>
  A small data file for the closed instances of the theorems below: an active customer
  with a large negative balance, a blank line, a record with the unknown status \<open>X\<close> and
  trailing blanks, a record without any status, and a line that does not parse. The
  parser is given by the table from lines to its results; the output file cannot be written.
\<close>

definition sample_layout :: "(string \<times> (pyexc + pydict)) list" where
  "sample_layout =
     [(''00042A-0000060000\<newline>'',
         Inr [(''customer_id'', PyInt 42), (''customer_name'', PyStr ''ada''),
              (''status_code'', PyStr ''A''),
              (''account_balance'', PyDecimal (Finite True 60000 (- 2)))]),
      (''00043X  \<newline>'',
         Inr [(''customer_id'', PyInt 43), (''status_code'', PyStr ''X'')]),
      (''00044\<newline>'', Inr [(''customer_id'', PyInt 44)])]"

definition sample_parse ::
  "string \<Rightarrow> (string \<times> (pyexc + pydict)) list \<Rightarrow> int \<Rightarrow> pyexc + pydict" where
  "sample_parse line layout_config n =
     (case map_of layout_config line of
        Some result \<Rightarrow> result
      | None \<Rightarrow> Inl (PyExc CobolParsingError ''unparsable''))"

definition sample_lines :: "string list" where
  "sample_lines =
     [''00042A-0000060000\<newline>'', ''   \<newline>'', ''00043X  \<newline>'', ''00044\<newline>'', ''?'']"

definition ascii_upper :: "string \<Rightarrow> string" where
  "ascii_upper s =
     map (\<lambda>c. case map_of (zip ''abcdefghijklmnopqrstuvwxyz'' ''ABCDEFGHIJKLMNOPQRSTUVWXYZ'') c of
                 Some u \<Rightarrow> u
               | None \<Rightarrow> c) s"

definition sample_env :: "(string \<times> (pyexc + pydict)) list environment" where
  "sample_env =
     \<lparr>load_layout = (\<lambda>path. Inr sample_layout),
      read_data = (\<lambda>path. Inr (sample_lines, None)),
      write_text = (\<lambda>path text. Some (PyExc OtherException ''disk full'')),
      parse_cobol_line = sample_parse,
      upper = ascii_upper\<rparr>"

definition sample_records :: "pydict list" where
  "sample_records =
     [[(''customer_id'', PyInt 42), (''customer_name'', PyStr ''ADA''),
       (''status_code'', PyStr ''A''),
       (''account_balance'', PyDecimal (Finite True 60000 (- 2))),
       (''is_active'', PyBool True)]]"

definition sample_errors :: "err_entry list" where
  "sample_errors =
     [error_dict 3 (record_error_msg 3 (invalid_status ''X'')) ''00043X  \<newline>'',
      error_dict 4 (record_error_msg 4 (invalid_status ''None'')) ''00044\<newline>'',
      error_dict 5 (record_error_msg 5 (PyExc CobolParsingError ''unparsable'')) ''?'']"

text \<open>
  Three variants of the sample with a fatal failure: a layout file that is not JSON, a
  data file that does not exist, and a data file whose fourth line cannot be decoded.
\<close>

definition broken_layout_env :: "(string \<times> (pyexc + pydict)) list environment" where
  "broken_layout_env =
     sample_env\<lparr>load_layout := (\<lambda>path. Inl (PyExc ValueError ''Expecting value''))\<rparr>"

definition missing_data_env :: "(string \<times> (pyexc + pydict)) list environment" where
  "missing_data_env =
     sample_env\<lparr>read_data := (\<lambda>path. Inl (PyExc FileNotFoundError ''No such file''))\<rparr>"

definition undecodable_data_env :: "(string \<times> (pyexc + pydict)) list environment" where
  "undecodable_data_env =
     sample_env\<lparr>read_data :=
       (\<lambda>path. Inr (take 3 sample_lines, Some (PyExc ValueError ''invalid start byte'')))\<rparr>"

definition start_log :: "string \<Rightarrow> string \<Rightarrow> log_record list" where
  "start_log layout_path cobol_data_path =
     [(INFO, ''Loaded layout from '' @ layout_path),
      (INFO, ''Processing data file '' @ cobol_data_path @ ''...'')]"

text \<open>
  For comparison with \<open>rstrip\<close>: a line with only its trailing newline removed, as the
  description of \<open>raw_line\<close> in the specification has it.
\<close>

definition strip_trailing_newline :: "string \<Rightarrow> string" where
  "strip_trailing_newline line =
     (if line \<noteq> [] \<and> last line = CHR 0x0A then butlast line else line)"

section \<open>Lemmas about the loop\<close>

subsection \<open>Dictionaries and exception classes\<close>

lemma map_of_dict_set: "map_of (dict_set d k v) = (map_of d)(k \<mapsto> v)"
  by (induction d k v rule: dict_set.induct) auto

lemma dict_get_dict_set: "dict_get (dict_set d k v) k' = (if k' = k then v else dict_get d k')"
  by (simp add: dict_get_def map_of_dict_set)

lemma not_Exception_not_caught:
  "\<not> isinstance_Exception e \<Longrightarrow> \<not> isinstance_ValueError e \<and> \<not> isinstance_KeyError e"
  by (simp add: isinstance_Exception_def isinstance_ValueError_def isinstance_KeyError_def)

lemma loop_body_blank:
  "strip line = [] \<Longrightarrow> loop_body env l st line = (st\<lparr>line_count := line_count st + 1\<rparr>, None)"
  by (simp add: loop_body_def)

lemma loop_body_accept:
  "strip line \<noteq> [] \<Longrightarrow> try_body env l (line_count st + 1) line = Inr (r, w) \<Longrightarrow>
   loop_body env l st line =
     (st\<lparr>line_count := line_count st + 1, log := log st @ w,
         processed_records := processed_records st @ [r]\<rparr>, None)"
  by (simp add: loop_body_def)

lemma loop_body_reject:
  "strip line \<noteq> [] \<Longrightarrow> try_body env l (line_count st + 1) line = Inl e \<Longrightarrow>
   isinstance_Exception e \<Longrightarrow>
   loop_body env l st line =
     (st\<lparr>line_count := line_count st + 1,
         log := log st @ [(ERROR, line_message (line_count st + 1) e)],
         processing_errors := processing_errors st @
            [error_dict (line_count st + 1) (line_message (line_count st + 1) e) line]\<rparr>, None)"
  by (simp add: loop_body_def record_error_def line_message_def)

lemma loop_body_propagate:
  "strip line \<noteq> [] \<Longrightarrow> try_body env l (line_count st + 1) line = Inl e \<Longrightarrow>
   \<not> isinstance_Exception e \<Longrightarrow>
   loop_body env l st line = (st\<lparr>line_count := line_count st + 1\<rparr>, Some e)"
  by (simp add: loop_body_def not_Exception_not_caught)

lemma loop_body_None:
  assumes "loop_body env l st line = (st', None)"
  shows "line_count st' = line_count st + 1"
    and "processed_records st' = processed_records st @ line_records env l (line_count st + 1) line"
    and "processing_errors st' = processing_errors st @ line_errors env l (line_count st + 1) line"
    and "log st' = log st @ line_warnings env l (line_count st + 1) line"
proof -
  consider (blank) "strip line = []"
    | (acc) r w where "strip line \<noteq> []" "try_body env l (line_count st + 1) line = Inr (r, w)"
    | (rej) e where "strip line \<noteq> []" "try_body env l (line_count st + 1) line = Inl e" "isinstance_Exception e"
    | (esc) e where "strip line \<noteq> []" "try_body env l (line_count st + 1) line = Inl e" "\<not> isinstance_Exception e"
    by (cases "try_body env l (line_count st + 1) line") auto
  then have "line_count st' = line_count st + 1
     \<and> processed_records st' = processed_records st @ line_records env l (line_count st + 1) line
     \<and> processing_errors st' = processing_errors st @ line_errors env l (line_count st + 1) line
     \<and> log st' = log st @ line_warnings env l (line_count st + 1) line"
  proof cases
    case blank
    with assms show ?thesis
      by (auto simp: loop_body_blank line_records_def line_errors_def line_warnings_def)
  next
    case acc
    with assms show ?thesis
      by (auto simp: loop_body_accept line_records_def line_errors_def line_warnings_def)
  next
    case rej
    with assms show ?thesis
      by (auto simp: loop_body_reject line_records_def line_errors_def line_warnings_def)
  next
    case esc
    with assms show ?thesis
      by (simp add: loop_body_propagate)
  qed
  then show "line_count st' = line_count st + 1"
    and "processed_records st' = processed_records st @ line_records env l (line_count st + 1) line"
    and "processing_errors st' = processing_errors st @ line_errors env l (line_count st + 1) line"
    and "log st' = log st @ line_warnings env l (line_count st + 1) line"
    by simp_all
qed

lemma process_lines_None:
  "process_lines env l st lines = (st', None) \<Longrightarrow>
     line_count st' = line_count st + int (length lines)
   \<and> processed_records st' = processed_records st @ records_from env l (line_count st) lines
   \<and> processing_errors st' = processing_errors st @ errors_from env l (line_count st) lines
   \<and> log st' = log st @ log_from env l (line_count st) lines"
proof (induction lines arbitrary: st)
  case Nil
  then show ?case by simp
next
  case (Cons line rest)
  obtain s1 r1 where s1: "loop_body env l st line = (s1, r1)"
    by (cases "loop_body env l st line")
  with Cons.prems have r1: "r1 = None"
    by (cases r1) auto
  with s1 Cons.prems have rest: "process_lines env l s1 rest = (st', None)"
    by simp
  note b = loop_body_None [OF s1 [unfolded r1]]
  from Cons.IH [OF rest] b show ?case
    by simp
qed


lemma length_line_outputs:
  "length (line_records env l n line) + length (line_errors env l n line)
     = (if strip line = [] then 0 else 1)"
  by (simp add: line_records_def line_errors_def split: sum.splits)

lemma length_outputs_from:
  "length (records_from env l n lines) + length (errors_from env l n lines)
     = length (filter (\<lambda>line. strip line \<noteq> []) lines)"
proof (induction lines arbitrary: n)
  case Nil
  then show ?case by simp
next
  case (Cons line rest)
  from Cons.IH [of "n + 1"] length_line_outputs [of env l "n + 1" line]
  show ?case by (simp split: if_splits)
qed

lemma errors_from_iff:
  "x \<in> set (errors_from env l n lines) \<longleftrightarrow>
     (\<exists>i < length lines. x \<in> set (line_errors env l (n + 1 + int i) (lines ! i)))"
proof (induction lines arbitrary: n)
  case Nil
  then show ?case by simp
next
  case (Cons line rest)
  define P where "P i = (x \<in> set (line_errors env l (n + 1 + int i) ((line # rest) ! i)))" for i
  have "(\<exists>i < length (line # rest). P i) \<longleftrightarrow> P 0 \<or> (\<exists>j < length rest. P (Suc j))"
    by (auto simp: less_Suc_eq_0_disj)
  moreover have "P 0 \<longleftrightarrow> x \<in> set (line_errors env l (n + 1) line)"
    by (simp add: P_def)
  moreover have "P (Suc j) \<longleftrightarrow> x \<in> set (line_errors env l (n + 1 + 1 + int j) (rest ! j))" for j
    by (simp add: P_def add.commute add.left_commute)
  ultimately show ?case
    unfolding P_def [symmetric] by (simp add: Cons.IH)
qed

lemma records_from_iff:
  "x \<in> set (records_from env l n lines) \<longleftrightarrow>
     (\<exists>i < length lines. x \<in> set (line_records env l (n + 1 + int i) (lines ! i)))"
proof (induction lines arbitrary: n)
  case Nil
  then show ?case by simp
next
  case (Cons line rest)
  define P where "P i = (x \<in> set (line_records env l (n + 1 + int i) ((line # rest) ! i)))" for i
  have "(\<exists>i < length (line # rest). P i) \<longleftrightarrow> P 0 \<or> (\<exists>j < length rest. P (Suc j))"
    by (auto simp: less_Suc_eq_0_disj)
  moreover have "P 0 \<longleftrightarrow> x \<in> set (line_records env l (n + 1) line)"
    by (simp add: P_def)
  moreover have "P (Suc j) \<longleftrightarrow> x \<in> set (line_records env l (n + 1 + 1 + int j) (rest ! j))" for j
    by (simp add: P_def add.commute add.left_commute)
  ultimately show ?case
    unfolding P_def [symmetric] by (simp add: Cons.IH)
qed

lemma log_from_iff:
  "x \<in> set (log_from env l n lines) \<longleftrightarrow>
     (\<exists>i < length lines. x \<in> set (line_warnings env l (n + 1 + int i) (lines ! i)))"
proof (induction lines arbitrary: n)
  case Nil
  then show ?case by simp
next
  case (Cons line rest)
  define P where "P i = (x \<in> set (line_warnings env l (n + 1 + int i) ((line # rest) ! i)))" for i
  have "(\<exists>i < length (line # rest). P i) \<longleftrightarrow> P 0 \<or> (\<exists>j < length rest. P (Suc j))"
    by (auto simp: less_Suc_eq_0_disj)
  moreover have "P 0 \<longleftrightarrow> x \<in> set (line_warnings env l (n + 1) line)"
    by (simp add: P_def)
  moreover have "P (Suc j) \<longleftrightarrow> x \<in> set (line_warnings env l (n + 1 + 1 + int j) (rest ! j))" for j
    by (simp add: P_def add.commute add.left_commute)
  ultimately show ?case
    unfolding P_def [symmetric] by (simp add: Cons.IH)
qed

lemma decimal_lt_Exception: "decimal_lt a b = Inl e \<Longrightarrow> isinstance_Exception e"
  by (induction a b rule: decimal_lt.induct)
     (auto simp: invalid_operation_def isinstance_Exception_def)

lemma py_lt_decimal_Exception: "py_lt_decimal v b = Inl e \<Longrightarrow> isinstance_Exception e"
  by (cases v) (auto simp: unorderable_def isinstance_Exception_def dest: decimal_lt_Exception)

lemma process_record_Exception:
  "process_record u n r = Inl e \<Longrightarrow> isinstance_Exception e"
  by (auto simp: process_record_def Let_def isinstance_Exception_def invalid_status_def
      split: if_splits sum.splits dest: py_lt_decimal_Exception)

lemma try_body_not_Exception:
  "try_body env l n line = Inl e \<Longrightarrow> \<not> isinstance_Exception e \<Longrightarrow>
   parse_cobol_line env line l n = Inl e"
  by (auto simp: try_body_def split: sum.splits dest: process_record_Exception)

lemma loop_body_completes:
  assumes "\<And>e. parse_cobol_line env line l (line_count st + 1) = Inl e \<Longrightarrow> isinstance_Exception e"
  shows "snd (loop_body env l st line) = None"
proof (cases "strip line = []")
  case True
  then show ?thesis by (simp add: loop_body_blank)
next
  case False
  show ?thesis
  proof (cases "try_body env l (line_count st + 1) line")
    case (Inl e)
    with assms try_body_not_Exception [OF Inl] have "isinstance_Exception e"
      by blast
    with False Inl show ?thesis by (simp add: loop_body_reject)
  next
    case (Inr rw)
    with False show ?thesis by (cases rw) (simp add: loop_body_accept)
  qed
qed

lemma process_lines_completes:
  assumes "\<And>i e. i < length lines \<Longrightarrow>
     parse_cobol_line env (lines ! i) l (line_count st + 1 + int i) = Inl e \<Longrightarrow>
     isinstance_Exception e"
  shows "snd (process_lines env l st lines) = None"
  using assms
proof (induction lines arbitrary: st)
  case Nil
  then show ?case by simp
next
  case (Cons line rest)
  obtain s1 r1 where s1: "loop_body env l st line = (s1, r1)"
    by (cases "loop_body env l st line")
  have "snd (loop_body env l st line) = None"
    using Cons.prems [of 0] by (intro loop_body_completes) simp
  with s1 have r1: "r1 = None" by simp
  have lc: "line_count s1 = line_count st + 1"
    using loop_body_None(1) [OF s1 [unfolded r1]] .
  have "snd (process_lines env l s1 rest) = None"
  proof (rule Cons.IH)
    fix i e
    assume "i < length rest"
      and "parse_cobol_line env (rest ! i) l (line_count s1 + 1 + int i) = Inl e"
    with Cons.prems [of "Suc i" e] lc show "isinstance_Exception e"
      by (simp add: add.commute add.left_commute)
  qed
  with s1 r1 show ?case by simp
qed

subsection \<open>The whole function\<close>

lemma outer_handler_no_records:
  "outer_handler p lg e = (Inr (rs, es), lg') \<Longrightarrow> rs = None"
  by (auto simp: outer_handler_def split: if_splits)

lemma finish_result:
  assumes "finish env op st = (Inr (rs, es), lg)"
  shows "rs = Some (processed_records st)"
    and "es = processing_errors st @ output_errors env op (processed_records st)"
    and "\<exists>after. lg = log st @ after"
  using assms
  by (auto simp: finish_def completed_def output_errors_def Let_def
      split: option.splits if_splits)

lemma run_completed:
  assumes "advanced_cobol_processor env lp dp op = (Inr (Some records, errors), lg)"
  obtains layout lines st lg0 after where
    "load_layout env lp = Inr layout"
    "read_data env dp = Inr (lines, None)"
    "process_lines env layout (initial_state lg0) lines = (st, None)"
    "records = processed_records st"
    "errors = processing_errors st @ output_errors env op records"
    "lg = log st @ after"
proof -
  from assms obtain layout where layout: "load_layout env lp = Inr layout"
    by (cases "load_layout env lp")
       (auto simp: advanced_cobol_processor_def split: if_splits)
  from assms layout obtain lines failure where rd: "read_data env dp = Inr (lines, failure)"
    by (cases "read_data env dp")
       (auto simp: advanced_cobol_processor_def Let_def dest: outer_handler_no_records)
  define lg0 where "lg0 = [(INFO, ''Loaded layout from '' @ lp)] @ [(INFO, ''Processing data file '' @ dp @ ''...'')]"
  obtain st r where pl: "process_lines env layout (initial_state lg0) lines = (st, r)"
    by (cases "process_lines env layout (initial_state lg0) lines")
  from assms layout rd pl have r: "r = None"
    by (cases r) (auto simp: advanced_cobol_processor_def Let_def lg0_def dest: outer_handler_no_records)
  from assms layout rd pl r have f: "failure = None"
    by (cases failure) (auto simp: advanced_cobol_processor_def Let_def lg0_def dest: outer_handler_no_records)
  from assms layout rd pl r f have fin: "finish env op st = (Inr (Some records, errors), lg)"
    by (simp add: advanced_cobol_processor_def Let_def lg0_def)
  from finish_result [OF fin] obtain after where
    "records = processed_records st"
    "errors = processing_errors st @ output_errors env op records"
    "lg = log st @ after"
    by auto
  with layout rd pl r f that show thesis
    by blast
qed

lemma initial_state_simps:
  "processed_records (initial_state lg) = []"
  "processing_errors (initial_state lg) = []"
  "line_count (initial_state lg) = 0"
  "log (initial_state lg) = lg"
  by (simp_all add: initial_state_def)

lemma run_completed_outputs:
  assumes "advanced_cobol_processor env lp dp op = (Inr (Some records, errors), lg)"
    and "read_data env dp = Inr (lines, failure)"
    and "load_layout env lp = Inr layout"
  shows "records = records_from env layout 0 lines"
    and "errors = errors_from env layout 0 lines @ output_errors env op records"
    and "set (log_from env layout 0 lines) \<subseteq> set lg"
proof -
  from assms(1) obtain layout' lines' st lg0 after where *:
    "load_layout env lp = Inr layout'"
    "read_data env dp = Inr (lines', None)"
    "process_lines env layout' (initial_state lg0) lines' = (st, None)"
    "records = processed_records st"
    "errors = processing_errors st @ output_errors env op records"
    "lg = log st @ after"
    by (rule run_completed)
  from * assms have eq: "layout' = layout" "lines' = lines"
    by simp_all
  from process_lines_None [OF *(3)] * eq
  show "records = records_from env layout 0 lines"
    and "errors = errors_from env layout 0 lines @ output_errors env op records"
    and "set (log_from env layout 0 lines) \<subseteq> set lg"
    by (auto simp: initial_state_simps)
qed

lemma is_ErrDict_line_errors: "x \<in> set (line_errors env l n line) \<Longrightarrow> is_ErrDict x"
  by (auto simp: line_errors_def error_dict_def split: sum.splits if_splits)

lemma filter_ErrDict_errors_from:
  "filter is_ErrDict (errors_from env l n lines) = errors_from env l n lines"
  by (induction lines arbitrary: n) (auto simp: filter_id_conv dest: is_ErrDict_line_errors)

lemma filter_ErrDict_output_errors: "filter is_ErrDict (output_errors env op rs) = []"
  by (simp add: output_errors_def split: option.splits)

subsection \<open>What a completed run returns\<close>

lemma line_records_iff:
  "x \<in> set (line_records env l n line) \<longleftrightarrow>
     strip line \<noteq> [] \<and> (\<exists>w. try_body env l n line = Inr (x, w))"
  by (cases "try_body env l n line") (auto simp: line_records_def)

lemma line_errors_iff:
  "x \<in> set (line_errors env l n line) \<longleftrightarrow>
     strip line \<noteq> [] \<and> (\<exists>e. try_body env l n line = Inl e \<and> x = error_dict n (line_message n e) line)"
  by (cases "try_body env l n line") (auto simp: line_errors_def)

lemma line_warnings_accept:
  "strip line \<noteq> [] \<Longrightarrow> try_body env l n line = Inr (r, w) \<Longrightarrow> line_warnings env l n line = w"
  by (simp add: line_warnings_def)

lemma error_dict_inject:
  "error_dict n msg raw = error_dict n' msg' raw' \<longleftrightarrow> n = n' \<and> msg = msg' \<and> rstrip raw = rstrip raw'"
  by (auto simp: error_dict_def)

lemma error_dict_not_output: "error_dict n msg raw \<notin> set (output_errors env op rs)"
  by (simp add: output_errors_def error_dict_def split: option.splits)

lemma process_record_accept:
  assumes "process_record u n r = Inr (r', w)"
  shows "dict_get r ''status_code'' \<in> set valid_statuses"
    and "dict_get r' ''status_code'' = dict_get r ''status_code''"
    and "dict_get r' ''account_balance'' = dict_get r ''account_balance''"
    and "map_of r' ''is_active'' = Some (PyBool (dict_get r' ''status_code'' = PyStr ''A''))"
  using assms
  by (auto simp: process_record_def Let_def dict_get_dict_set map_of_dict_set
      split: if_splits sum.splits option.splits)

lemma process_record_reject:
  "dict_get r ''status_code'' \<notin> set valid_statuses \<Longrightarrow>
   process_record u n r = Inl (invalid_status (py_str (dict_get r ''status_code'')))"
  by (simp add: process_record_def)

lemma invalid_status_message:
  "line_message n (invalid_status t) = record_error_msg n (invalid_status t)"
  by (simp add: line_message_def isinstance_ValueError_def invalid_status_def)

lemma try_body_accept:
  "try_body env l n line = Inr (r', w) \<Longrightarrow>
   \<exists>r. parse_cobol_line env line l n = Inr r \<and> process_record (upper env) n r = Inr (r', w)"
  by (auto simp: try_body_def split: sum.splits)


lemma completed_error_origin:
  assumes "advanced_cobol_processor env lp dp op = (Inr (Some records, errors), lg)"
    and "read_data env dp = Inr (lines, failure)"
    and "load_layout env lp = Inr layout"
    and "error_dict n msg raw \<in> set errors"
  shows "\<exists>i < length lines. n = int i + 1 \<and> strip (lines ! i) \<noteq> [] \<and>
           (\<exists>e. try_body env layout (int i + 1) (lines ! i) = Inl e \<and>
                msg = line_message (int i + 1) e \<and> rstrip raw = rstrip (lines ! i))"
proof -
  from run_completed_outputs(2) [OF assms(1-3)] assms(4)
  have "error_dict n msg raw \<in> set (errors_from env layout 0 lines)"
    by (simp add: error_dict_not_output)
  then obtain i where i: "i < length lines"
    and "error_dict n msg raw \<in> set (line_errors env layout (0 + 1 + int i) (lines ! i))"
    unfolding errors_from_iff by blast
  then have "strip (lines ! i) \<noteq> []"
    and "\<exists>e. try_body env layout (1 + int i) (lines ! i) = Inl e \<and>
           error_dict n msg raw = error_dict (1 + int i) (line_message (1 + int i) e) (lines ! i)"
    by (simp_all add: line_errors_iff)
  with i show ?thesis
    by (auto simp: error_dict_inject add.commute)
qed

lemma completed_record_origin:
  assumes "advanced_cobol_processor env lp dp op = (Inr (Some records, errors), lg)"
    and "read_data env dp = Inr (lines, failure)"
    and "load_layout env lp = Inr layout"
    and "r \<in> set records"
  shows "\<exists>i < length lines. strip (lines ! i) \<noteq> [] \<and>
           (\<exists>w. try_body env layout (int i + 1) (lines ! i) = Inr (r, w))"
proof -
  from run_completed_outputs(1) [OF assms(1-3)] assms(4)
  have "r \<in> set (records_from env layout 0 lines)"
    by simp
  then obtain i where "i < length lines"
    and "r \<in> set (line_records env layout (0 + 1 + int i) (lines ! i))"
    unfolding records_from_iff by blast
  then show ?thesis
    by (auto simp: line_records_iff add.commute)
qed

lemma completed_line_rejected:
  assumes "advanced_cobol_processor env lp dp op = (Inr (Some records, errors), lg)"
    and "read_data env dp = Inr (lines, failure)"
    and "load_layout env lp = Inr layout"
    and "i < length lines" and "strip (lines ! i) \<noteq> []"
    and "try_body env layout (int i + 1) (lines ! i) = Inl e"
  shows "error_dict (int i + 1) (line_message (int i + 1) e) (lines ! i) \<in> set errors"
proof -
  from assms(5,6)
  have "error_dict (int i + 1) (line_message (int i + 1) e) (lines ! i)
          \<in> set (line_errors env layout (0 + 1 + int i) (lines ! i))"
    by (simp add: line_errors_iff add.commute)
  with assms(4) have "error_dict (int i + 1) (line_message (int i + 1) e) (lines ! i)
          \<in> set (errors_from env layout 0 lines)"
    unfolding errors_from_iff by blast
  with run_completed_outputs(2) [OF assms(1-3)] show ?thesis
    by simp
qed

lemma completed_line_accepted:
  assumes "advanced_cobol_processor env lp dp op = (Inr (Some records, errors), lg)"
    and "read_data env dp = Inr (lines, failure)"
    and "load_layout env lp = Inr layout"
    and "i < length lines" and "strip (lines ! i) \<noteq> []"
    and "try_body env layout (int i + 1) (lines ! i) = Inr (r, w)"
  shows "r \<in> set records" and "set w \<subseteq> set lg"
    and "error_dict (int i + 1) msg raw \<notin> set errors"
proof -
  from assms(5,6)
  have "r \<in> set (line_records env layout (0 + 1 + int i) (lines ! i))"
    by (auto simp: line_records_iff add.commute)
  with assms(4) have "r \<in> set (records_from env layout 0 lines)"
    unfolding records_from_iff by blast
  with run_completed_outputs(1) [OF assms(1-3)] show "r \<in> set records"
    by simp
  from assms(5,6) have "line_warnings env layout (0 + 1 + int i) (lines ! i) = w"
    by (simp add: line_warnings_accept add.commute)
  with assms(4) have "set w \<subseteq> set (log_from env layout 0 lines)"
    unfolding log_from_iff subset_iff by blast
  with run_completed_outputs(3) [OF assms(1-3)] show "set w \<subseteq> set lg"
    by blast
  show "error_dict (int i + 1) msg raw \<notin> set errors"
  proof
    assume "error_dict (int i + 1) msg raw \<in> set errors"
    from completed_error_origin [OF assms(1-3) this]
    obtain j e where "int i + 1 = int j + 1" "try_body env layout (int j + 1) (lines ! j) = Inl e"
      by blast
    with assms(6) show False by simp
  qed
qed

lemma process_record_low_balance:
  assumes "dict_get r ''status_code'' \<in> set valid_statuses"
    and "dict_get r ''account_balance'' = PyDecimal d"
    and "decimal_lt d balance_threshold = Inr True"
  shows "\<exists>r'. process_record u n r = Inr (r', [balance_warning n r' (PyDecimal d)])"
  using assms
  by (simp add: process_record_def Let_def dict_get_dict_set split: option.splits)

lemma rstrip_decomp: "\<exists>ws. s = rstrip s @ ws \<and> (\<forall>c \<in> set ws. isspace c)"
proof -
  have "rev s = takeWhile isspace (rev s) @ dropWhile isspace (rev s)"
    by simp
  then have "s = rev (dropWhile isspace (rev s)) @ rev (takeWhile isspace (rev s))"
    by (metis rev_append rev_rev_ident)
  moreover have "\<forall>c \<in> set (rev (takeWhile isspace (rev s))). isspace c"
    by (auto dest: set_takeWhileD)
  ultimately show ?thesis
    unfolding rstrip_def by blast
qed

lemma rstrip_last: "rstrip s \<noteq> [] \<Longrightarrow> \<not> isspace (last (rstrip s))"
  unfolding rstrip_def by (simp add: last_rev hd_dropWhile)

lemma rstrip_Nil_iff: "rstrip s = [] \<longleftrightarrow> (\<forall>c \<in> set s. isspace c)"
  by (simp add: rstrip_def dropWhile_eq_Nil_conv)

lemma strip_Nil_iff: "strip s = [] \<longleftrightarrow> (\<forall>c \<in> set s. isspace c)"
proof
  assume "strip s = []"
  then have all: "\<forall>c \<in> set (dropWhile isspace s). isspace c"
    by (simp add: strip_def lstrip_def rstrip_Nil_iff)
  have "dropWhile isspace s = []"
  proof (rule ccontr)
    assume ne: "dropWhile isspace s \<noteq> []"
    then have "\<not> isspace (hd (dropWhile isspace s))"
      by (rule hd_dropWhile)
    with all ne show False
      by (simp add: hd_in_set)
  qed
  then show "\<forall>c \<in> set s. isspace c"
    by (simp add: dropWhile_eq_Nil_conv)
next
  assume "\<forall>c \<in> set s. isspace c"
  then show "strip s = []"
    by (auto simp: strip_def lstrip_def rstrip_def dest: set_dropWhileD)
qed

lemma completed_entry_shape:
  assumes "advanced_cobol_processor env lp dp op = (Inr (Some records, errors), lg)"
    and "read_data env dp = Inr (lines, failure)"
    and "load_layout env lp = Inr layout"
    and "ErrDict d \<in> set errors"
  shows "\<exists>i < length lines. \<exists>e. strip (lines ! i) \<noteq> [] \<and>
           try_body env layout (int i + 1) (lines ! i) = Inl e \<and>
           d = [(''line_number'', PyInt (int i + 1)),
                (''error'', PyStr (line_message (int i + 1) e)),
                (''raw_line'', PyStr (rstrip (lines ! i)))]"
proof -
  from run_completed_outputs(2) [OF assms(1-3)] assms(4)
  have "ErrDict d \<in> set (errors_from env layout 0 lines)"
    by (auto simp: output_errors_def split: option.splits if_splits)
  then obtain i where i: "i < length lines"
    and "ErrDict d \<in> set (line_errors env layout (0 + 1 + int i) (lines ! i))"
    unfolding errors_from_iff by blast
  then have "strip (lines ! i) \<noteq> []"
    and "\<exists>e. try_body env layout (1 + int i) (lines ! i) = Inl e \<and>
           ErrDict d = error_dict (1 + int i) (line_message (1 + int i) e) (lines ! i)"
    by (simp_all add: line_errors_iff)
  with i show ?thesis
    by (auto simp: error_dict_def add.commute)
qed






subsection \<open>The sample run\<close>

lemma strip_samples:
  "strip ''00042A-0000060000\<newline>'' \<noteq> []" "strip ''   \<newline>'' = []" "strip ''00043X  \<newline>'' \<noteq> []"
  "strip ''00044\<newline>'' \<noteq> []" "strip ''?'' \<noteq> []"
  by (simp_all add: strip_def lstrip_def rstrip_def isspace_def whitespace_chars_def)

lemma sample_try_body:
  "try_body sample_env sample_layout 1 ''00042A-0000060000\<newline>''
     = Inr (hd sample_records, [balance_warning 1 (hd sample_records) (PyDecimal (Finite True 60000 (- 2)))])"
  "try_body sample_env sample_layout 3 ''00043X  \<newline>'' = Inl (invalid_status ''X'')"
  "try_body sample_env sample_layout 4 ''00044\<newline>'' = Inl (invalid_status ''None'')"
  "try_body sample_env sample_layout 5 ''?'' = Inl (PyExc CobolParsingError ''unparsable'')"
  by (simp_all add: try_body_def sample_env_def sample_parse_def sample_layout_def
      process_record_def valid_statuses_def dict_get_def ascii_upper_def sample_records_def
      balance_threshold_def finite_scaled_def Let_def)

lemma sample_classes:
  "isinstance_ValueError (invalid_status t)"
  "isinstance_Exception (invalid_status t)"
  "isinstance_ValueError (PyExc CobolParsingError m)"
  "isinstance_Exception (PyExc CobolParsingError m)"
  by (simp_all add: isinstance_ValueError_def isinstance_Exception_def invalid_status_def)

lemma sample_loop:
  "process_lines sample_env sample_layout (initial_state lg) sample_lines
     = (\<lparr>processed_records = sample_records, processing_errors = sample_errors, line_count = 5,
         log = lg @ [balance_warning 1 (hd sample_records) (PyDecimal (Finite True 60000 (- 2))),
                     (ERROR, record_error_msg 3 (invalid_status ''X'')),
                     (ERROR, record_error_msg 4 (invalid_status ''None'')),
                     (ERROR, record_error_msg 5 (PyExc CobolParsingError ''unparsable''))]\<rparr>, None)"
  by (simp add: sample_lines_def initial_state_def loop_body_blank loop_body_accept
      loop_body_reject strip_samples sample_try_body sample_classes line_message_def
      sample_errors_def sample_records_def)

lemma sample_env_simps:
  "load_layout sample_env lp = Inr sample_layout"
  "read_data sample_env dp = Inr (sample_lines, None)"
  "write_text sample_env p t = Some (PyExc OtherException ''disk full'')"
  by (simp_all add: sample_env_def)

lemma sample_run_fst:
  "fst (advanced_cobol_processor sample_env ''layout.json'' ''data.txt'' None)
     = Inr (Some sample_records, sample_errors)"
  by (simp add: advanced_cobol_processor_def Let_def sample_env_simps sample_loop finish_def
      completed_def)

lemma sample_run:
  "advanced_cobol_processor sample_env ''layout.json'' ''data.txt'' None
     = (Inr (Some sample_records, sample_errors),
        snd (advanced_cobol_processor sample_env ''layout.json'' ''data.txt'' None))"
  using sample_run_fst by (simp add: prod_eq_iff)

lemma sample_line_facts:
  "length sample_lines = 5"
  "sample_lines ! 0 = ''00042A-0000060000\<newline>''"
  "sample_lines ! 1 = ''   \<newline>''"
  "sample_lines ! Suc 0 = ''   \<newline>''"
  "sample_lines ! 2 = ''00043X  \<newline>''"
  "sample_lines ! 3 = ''00044\<newline>''"
  "sample_lines ! 4 = ''?''"
  by (simp_all add: sample_lines_def)

lemma sample_parse_facts:
  "parse_cobol_line sample_env ''00042A-0000060000\<newline>'' sample_layout n
     = Inr [(''customer_id'', PyInt 42), (''customer_name'', PyStr ''ada''),
            (''status_code'', PyStr ''A''),
            (''account_balance'', PyDecimal (Finite True 60000 (- 2)))]"
  "parse_cobol_line sample_env ''00043X  \<newline>'' sample_layout n
     = Inr [(''customer_id'', PyInt 43), (''status_code'', PyStr ''X'')]"
  "parse_cobol_line sample_env ''00044\<newline>'' sample_layout n = Inr [(''customer_id'', PyInt 44)]"
  by (simp_all add: sample_env_def sample_parse_def sample_layout_def)

lemma sample_errors_nth:
  "sample_errors ! 0 =
     ErrDict [(''line_number'', PyInt 3),
              (''error'', PyStr (record_error_msg 3 (invalid_status ''X''))),
              (''raw_line'', PyStr ''00043X'')]"
  by (simp add: sample_errors_def error_dict_def rstrip_def isspace_def whitespace_chars_def)




section \<open>The claims\<close>

text \<open>
  C1. When a run over a data file of \<open>N\<close> lines completes, the number of records returned
  plus the number of per-line entries (the dictionaries) of the error list is \<open>N\<close> minus
  the number of blank lines: every line that is not blank gives one record or one entry.
\<close>

theorem records_plus_line_errors:
  assumes "advanced_cobol_processor env layout_path cobol_data_path output_json_path
             = (Inr (Some records, errors), lg)"
    and "read_data env cobol_data_path = Inr (lines, failure)"
  shows "length records + length (filter is_ErrDict errors)
           = length lines - length (filter (\<lambda>line. strip line = []) lines)"
proof -
  from assms(1) obtain layout where layout: "load_layout env layout_path = Inr layout"
    by (rule run_completed)
  note out = run_completed_outputs [OF assms layout]
  have "length lines = length (filter (\<lambda>line. strip line \<noteq> []) lines)
          + length (filter (\<lambda>line. strip line = []) lines)"
    using sum_length_filter_compl [of "\<lambda>line. strip line \<noteq> []" lines] by simp
  moreover have "length records + length (filter is_ErrDict errors)
      = length (filter (\<lambda>line. strip line \<noteq> []) lines)"
    using length_outputs_from [of env layout 0 lines] out(1,2)
    by (simp add: filter_ErrDict_errors_from filter_ErrDict_output_errors)
  ultimately show ?thesis by simp
qed

theorem records_plus_line_errors_witness:
  "advanced_cobol_processor sample_env ''layout.json'' ''data.txt'' None
     = (Inr (Some sample_records, sample_errors),
        snd (advanced_cobol_processor sample_env ''layout.json'' ''data.txt'' None))
   \<and> read_data sample_env ''data.txt'' = Inr (sample_lines, None)
   \<and> length sample_records + length (filter is_ErrDict sample_errors)
       = length sample_lines - length (filter (\<lambda>line. strip line = []) sample_lines)"
  using records_plus_line_errors [OF sample_run sample_env_simps(2)] sample_run
  by (simp add: sample_env_simps)

text \<open>
  C2. In a completed run, a line that is not blank and whose parsed record has a
  \<open>status_code\<close> outside \<open>A\<close>, \<open>N\<close>, \<open>R\<close> gives an entry of the error list with the line's
  1-based number, and the record is not among the records returned, all of which have a
  valid status.
\<close>

theorem invalid_status_rejected:
  assumes "advanced_cobol_processor env layout_path cobol_data_path output_json_path
             = (Inr (Some records, errors), lg)"
    and "read_data env cobol_data_path = Inr (lines, failure)"
    and "load_layout env layout_path = Inr layout_config"
    and "i < length lines" and "strip (lines ! i) \<noteq> []"
    and "parse_cobol_line env (lines ! i) layout_config (int i + 1) = Inr parsed_record"
    and "map_of parsed_record ''status_code'' = Some v"
    and "v \<notin> set valid_statuses"
  shows "error_dict (int i + 1) (record_error_msg (int i + 1) (invalid_status (py_str v)))
            (lines ! i) \<in> set errors
       \<and> parsed_record \<notin> set records
       \<and> (\<forall>r \<in> set records. dict_get r ''status_code'' \<in> set valid_statuses)"
proof -
  from assms(7) have v: "dict_get parsed_record ''status_code'' = v"
    by (simp add: dict_get_def)
  with assms(6,8) have "try_body env layout_config (int i + 1) (lines ! i)
      = Inl (invalid_status (py_str v))"
    by (simp add: try_body_def process_record_reject)
  from completed_line_rejected [OF assms(1-5) this]
  have entry: "error_dict (int i + 1) (record_error_msg (int i + 1) (invalid_status (py_str v)))
            (lines ! i) \<in> set errors"
    by (simp add: invalid_status_message)
  have valid: "dict_get r ''status_code'' \<in> set valid_statuses" if "r \<in> set records" for r
  proof -
    from completed_record_origin [OF assms(1-3) that] obtain j w where
      "try_body env layout_config (int j + 1) (lines ! j) = Inr (r, w)"
      by blast
    from try_body_accept [OF this] obtain r0 where
      "process_record (upper env) (int j + 1) r0 = Inr (r, w)"
      by blast
    from process_record_accept(1,2) [OF this] show ?thesis
      by simp
  qed
  from valid v assms(8) have "parsed_record \<notin> set records"
    by blast
  with entry valid show ?thesis
    by blast
qed

theorem invalid_status_rejected_witness:
  "parse_cobol_line sample_env (sample_lines ! 2) sample_layout 3
     = Inr [(''customer_id'', PyInt 43), (''status_code'', PyStr ''X'')]
   \<and> PyStr ''X'' \<notin> set valid_statuses
   \<and> error_dict 3 (record_error_msg 3 (invalid_status ''X'')) (sample_lines ! 2)
       \<in> set sample_errors
   \<and> [(''customer_id'', PyInt 43), (''status_code'', PyStr ''X'')] \<notin> set sample_records
   \<and> list_all (\<lambda>r. dict_get r ''status_code'' \<in> set valid_statuses) sample_records"
proof -
  have a: "2 < length sample_lines"
    by (simp add: sample_line_facts)
  have b: "strip (sample_lines ! 2) \<noteq> []"
    by (simp add: sample_line_facts strip_samples)
  have c: "parse_cobol_line sample_env (sample_lines ! 2) sample_layout (int 2 + 1)
     = Inr [(''customer_id'', PyInt 43), (''status_code'', PyStr ''X'')]"
    by (simp add: sample_line_facts sample_parse_facts)
  have d: "map_of [(''customer_id'', PyInt 43), (''status_code'', PyStr ''X'')] ''status_code''
     = Some (PyStr ''X'')"
    by simp
  have e: "PyStr ''X'' \<notin> set valid_statuses"
    by (simp add: valid_statuses_def)
  from invalid_status_rejected [OF sample_run sample_env_simps(2,1) a b c d e] c e
  show ?thesis by (simp add: list_all_iff)
qed

text \<open>
  C6. Blank lines are counted but give nothing: in a completed run every record and every
  per-line entry comes from a line that is not blank, the entry carries the position of
  that line among all lines of the file, blank ones included, and no entry carries the
  number of a blank line.
\<close>

theorem blank_lines_counted_only:
  assumes "advanced_cobol_processor env layout_path cobol_data_path output_json_path
             = (Inr (Some records, errors), lg)"
    and "read_data env cobol_data_path = Inr (lines, failure)"
    and "load_layout env layout_path = Inr layout_config"
  shows "(\<forall>r \<in> set records. \<exists>i < length lines. strip (lines ! i) \<noteq> [] \<and>
            (\<exists>w. try_body env layout_config (int i + 1) (lines ! i) = Inr (r, w)))
       \<and> (\<forall>n msg raw. error_dict n msg raw \<in> set errors \<longrightarrow>
            (\<exists>i < length lines. n = int i + 1 \<and> strip (lines ! i) \<noteq> [] \<and>
               rstrip raw = rstrip (lines ! i) \<and>
               (\<exists>e. try_body env layout_config (int i + 1) (lines ! i) = Inl e)))
       \<and> (\<forall>i < length lines. strip (lines ! i) = [] \<longrightarrow>
            (\<forall>msg raw. error_dict (int i + 1) msg raw \<notin> set errors))
       \<and> length records + length (filter is_ErrDict errors)
            = length (filter (\<lambda>line. strip line \<noteq> []) lines)"
proof (intro conjI ballI allI impI)
  fix r assume "r \<in> set records"
  from completed_record_origin [OF assms this]
  show "\<exists>i < length lines. strip (lines ! i) \<noteq> [] \<and>
          (\<exists>w. try_body env layout_config (int i + 1) (lines ! i) = Inr (r, w))" .
next
  fix n msg raw assume "error_dict n msg raw \<in> set errors"
  from completed_error_origin [OF assms this]
  show "\<exists>i < length lines. n = int i + 1 \<and> strip (lines ! i) \<noteq> [] \<and>
          rstrip raw = rstrip (lines ! i) \<and>
          (\<exists>e. try_body env layout_config (int i + 1) (lines ! i) = Inl e)"
    by blast
next
  fix i msg raw
  assume i: "i < length lines" "strip (lines ! i) = []"
  show "error_dict (int i + 1) msg raw \<notin> set errors"
  proof
    assume "error_dict (int i + 1) msg raw \<in> set errors"
    from completed_error_origin [OF assms this]
    obtain j where "int i + 1 = int j + 1" "strip (lines ! j) \<noteq> []"
      by blast
    with i show False by simp
  qed
next
  from run_completed_outputs(1,2) [OF assms] length_outputs_from [of env layout_config 0 lines]
  show "length records + length (filter is_ErrDict errors)
          = length (filter (\<lambda>line. strip line \<noteq> []) lines)"
    by (simp add: filter_ErrDict_errors_from filter_ErrDict_output_errors)
qed

theorem blank_lines_counted_only_witness:
  "read_data sample_env ''data.txt'' = Inr (sample_lines, None)
   \<and> strip (sample_lines ! 1) = []
   \<and> (\<forall>msg raw. error_dict 2 msg raw \<notin> set sample_errors)
   \<and> length sample_records + length (filter is_ErrDict sample_errors) = 4"
proof -
  note run = blank_lines_counted_only [OF sample_run sample_env_simps(2,1)]
  from run have "\<forall>i < length sample_lines. strip (sample_lines ! i) = [] \<longrightarrow>
      (\<forall>msg raw. error_dict (int i + 1) msg raw \<notin> set sample_errors)"
    by blast
  then have "1 < length sample_lines \<longrightarrow> strip (sample_lines ! 1) = [] \<longrightarrow>
      (\<forall>msg raw. error_dict (int 1 + 1) msg raw \<notin> set sample_errors)"
    by (rule spec)
  then have "\<forall>msg raw. error_dict 2 msg raw \<notin> set sample_errors"
    by (simp add: sample_line_facts strip_samples)
  moreover from run have "length sample_records + length (filter is_ErrDict sample_errors)
      = length (filter (\<lambda>line. strip line \<noteq> []) sample_lines)"
    by blast
  then have "length sample_records + length (filter is_ErrDict sample_errors) = 4"
    by (simp add: sample_lines_def strip_samples)
  ultimately show ?thesis
    by (simp add: sample_env_simps sample_line_facts strip_samples)
qed

text \<open>
  C8. Every record returned has the field \<open>is_active\<close>, a boolean that is true exactly when
  the record's \<open>status_code\<close> is \<open>A\<close>.
\<close>

theorem is_active_derived:
  assumes "advanced_cobol_processor env layout_path cobol_data_path output_json_path
             = (Inr (Some records, errors), lg)"
  shows "\<forall>r \<in> set records.
           map_of r ''is_active'' = Some (PyBool (dict_get r ''status_code'' = PyStr ''A''))"
proof
  fix r assume r: "r \<in> set records"
  from assms obtain layout lines where
    "load_layout env layout_path = Inr layout" "read_data env cobol_data_path = Inr (lines, None)"
    by (rule run_completed)
  from completed_record_origin [OF assms this(2,1) r] obtain j w where
    "try_body env layout (int j + 1) (lines ! j) = Inr (r, w)"
    by blast
  from try_body_accept [OF this] obtain r0 where
    "process_record (upper env) (int j + 1) r0 = Inr (r, w)"
    by blast
  from process_record_accept(4) [OF this]
  show "map_of r ''is_active'' = Some (PyBool (dict_get r ''status_code'' = PyStr ''A''))" .
qed

theorem is_active_derived_witness:
  "sample_records \<noteq> [] \<and>
   list_all (\<lambda>r. map_of r ''is_active'' = Some (PyBool (dict_get r ''status_code'' = PyStr ''A'')))
     sample_records \<and>
   map_of (hd sample_records) ''is_active'' = Some (PyBool True)"
proof -
  from is_active_derived [OF sample_run]
  have "list_all (\<lambda>r. map_of r ''is_active'' = Some (PyBool (dict_get r ''status_code'' = PyStr ''A'')))
     sample_records"
    by (simp add: list_all_iff)
  then show ?thesis
    by (simp add: sample_records_def dict_get_def)
qed

text \<open>
  C9. A record with a valid status whose \<open>account_balance\<close> is a decimal below \<open>-500.00\<close> is
  only warned about: the warning is logged, the record is among the records returned, and
  the error list has no entry for its line.
\<close>

theorem low_balance_only_warns:
  assumes "advanced_cobol_processor env layout_path cobol_data_path output_json_path
             = (Inr (Some records, errors), lg)"
    and "read_data env cobol_data_path = Inr (lines, failure)"
    and "load_layout env layout_path = Inr layout_config"
    and "i < length lines" and "strip (lines ! i) \<noteq> []"
    and "parse_cobol_line env (lines ! i) layout_config (int i + 1) = Inr parsed_record"
    and "dict_get parsed_record ''status_code'' \<in> set valid_statuses"
    and "dict_get parsed_record ''account_balance'' = PyDecimal d"
    and "decimal_lt d balance_threshold = Inr True"
  shows "\<exists>r. process_record (upper env) (int i + 1) parsed_record
                = Inr (r, [balance_warning (int i + 1) r (PyDecimal d)])
           \<and> r \<in> set records
           \<and> balance_warning (int i + 1) r (PyDecimal d) \<in> set lg
           \<and> (\<forall>msg raw. error_dict (int i + 1) msg raw \<notin> set errors)"
proof -
  from process_record_low_balance [OF assms(7-9)] obtain r where
    r: "process_record (upper env) (int i + 1) parsed_record
          = Inr (r, [balance_warning (int i + 1) r (PyDecimal d)])"
    by blast
  with assms(6) have "try_body env layout_config (int i + 1) (lines ! i)
      = Inr (r, [balance_warning (int i + 1) r (PyDecimal d)])"
    by (simp add: try_body_def)
  note acc = completed_line_accepted [OF assms(1-5) this]
  from r acc(1) acc(2) acc(3) show ?thesis
    by auto
qed

theorem low_balance_only_warns_witness:
  "decimal_lt (Finite True 60000 (- 2)) balance_threshold = Inr True
   \<and> (\<exists>r. process_record (upper sample_env) 1
             [(''customer_id'', PyInt 42), (''customer_name'', PyStr ''ada''),
              (''status_code'', PyStr ''A''),
              (''account_balance'', PyDecimal (Finite True 60000 (- 2)))]
           = Inr (r, [balance_warning 1 r (PyDecimal (Finite True 60000 (- 2)))])
         \<and> r \<in> set sample_records
         \<and> balance_warning 1 r (PyDecimal (Finite True 60000 (- 2)))
             \<in> set (snd (advanced_cobol_processor sample_env ''layout.json'' ''data.txt'' None))
         \<and> (\<forall>msg raw. error_dict 1 msg raw \<notin> set sample_errors))"
proof -
  have a: "0 < length sample_lines"
    by (simp add: sample_line_facts)
  have b: "strip (sample_lines ! 0) \<noteq> []"
    by (simp add: sample_line_facts strip_samples)
  have c: "parse_cobol_line sample_env (sample_lines ! 0) sample_layout (int 0 + 1)
     = Inr [(''customer_id'', PyInt 42), (''customer_name'', PyStr ''ada''),
            (''status_code'', PyStr ''A''),
            (''account_balance'', PyDecimal (Finite True 60000 (- 2)))]"
    by (simp add: sample_line_facts sample_parse_facts)
  have d: "dict_get [(''customer_id'', PyInt 42), (''customer_name'', PyStr ''ada''),
            (''status_code'', PyStr ''A''),
            (''account_balance'', PyDecimal (Finite True 60000 (- 2)))] ''status_code''
          \<in> set valid_statuses"
    by (simp add: dict_get_def valid_statuses_def)
  have e: "dict_get [(''customer_id'', PyInt 42), (''customer_name'', PyStr ''ada''),
            (''status_code'', PyStr ''A''),
            (''account_balance'', PyDecimal (Finite True 60000 (- 2)))] ''account_balance''
          = PyDecimal (Finite True 60000 (- 2))"
    by (simp add: dict_get_def)
  have f: "decimal_lt (Finite True 60000 (- 2)) balance_threshold = Inr True"
    by (simp add: balance_threshold_def finite_scaled_def)
  from low_balance_only_warns [OF sample_run sample_env_simps(2,1) a b c d e f] f
  show ?thesis by simp
qed

text \<open>
  C10. A line whose parsed record has no \<open>status_code\<close> at all is rejected like one with an
  invalid status: the lookup gives \<^verbatim>\<open>None\<close>, which is not an allowed status, so the line
  gives an entry of the error list and no record.
\<close>

theorem missing_status_rejected:
  assumes "advanced_cobol_processor env layout_path cobol_data_path output_json_path
             = (Inr (Some records, errors), lg)"
    and "read_data env cobol_data_path = Inr (lines, failure)"
    and "load_layout env layout_path = Inr layout_config"
    and "i < length lines" and "strip (lines ! i) \<noteq> []"
    and "parse_cobol_line env (lines ! i) layout_config (int i + 1) = Inr parsed_record"
    and "map_of parsed_record ''status_code'' = None"
  shows "error_dict (int i + 1) (record_error_msg (int i + 1) (invalid_status ''None''))
            (lines ! i) \<in> set errors
       \<and> parsed_record \<notin> set records
       \<and> (\<forall>r \<in> set records. map_of r ''status_code'' \<noteq> None)"
proof -
  from assms(7) have v: "dict_get parsed_record ''status_code'' = PyNone"
    by (simp add: dict_get_def)
  then have bad: "dict_get parsed_record ''status_code'' \<notin> set valid_statuses"
    by (simp add: valid_statuses_def)
  with assms(6) v have "try_body env layout_config (int i + 1) (lines ! i)
      = Inl (invalid_status ''None'')"
    by (simp add: try_body_def process_record_reject)
  from completed_line_rejected [OF assms(1-5) this]
  have entry: "error_dict (int i + 1) (record_error_msg (int i + 1) (invalid_status ''None''))
            (lines ! i) \<in> set errors"
    by (simp add: invalid_status_message)
  have present: "map_of r ''status_code'' \<noteq> None" if "r \<in> set records" for r
  proof -
    from completed_record_origin [OF assms(1-3) that] obtain j w where
      "try_body env layout_config (int j + 1) (lines ! j) = Inr (r, w)"
      by blast
    from try_body_accept [OF this] obtain r0 where
      "process_record (upper env) (int j + 1) r0 = Inr (r, w)"
      by blast
    from process_record_accept(1,2) [OF this]
    have "dict_get r ''status_code'' \<in> set valid_statuses"
      by simp
    then show ?thesis
      by (auto simp: dict_get_def valid_statuses_def split: option.splits)
  qed
  from present assms(7) have "parsed_record \<notin> set records"
    by blast
  with entry present show ?thesis
    by blast
qed

theorem missing_status_rejected_witness:
  "parse_cobol_line sample_env (sample_lines ! 3) sample_layout 4 = Inr [(''customer_id'', PyInt 44)]
   \<and> map_of [(''customer_id'', PyInt 44)] ''status_code'' = None
   \<and> error_dict 4 (record_error_msg 4 (invalid_status ''None'')) (sample_lines ! 3)
       \<in> set sample_errors
   \<and> [(''customer_id'', PyInt 44)] \<notin> set sample_records
   \<and> list_all (\<lambda>r. map_of r ''status_code'' \<noteq> None) sample_records"
proof -
  have a: "3 < length sample_lines"
    by (simp add: sample_line_facts)
  have b: "strip (sample_lines ! 3) \<noteq> []"
    by (simp add: sample_line_facts strip_samples)
  have c: "parse_cobol_line sample_env (sample_lines ! 3) sample_layout (int 3 + 1)
     = Inr [(''customer_id'', PyInt 44)]"
    by (simp add: sample_line_facts sample_parse_facts)
  have d: "map_of [(''customer_id'', PyInt 44)] ''status_code'' = None"
    by simp
  from missing_status_rejected [OF sample_run sample_env_simps(2,1) a b c d] c
  show ?thesis by (simp add: list_all_iff)
qed

text \<open>
  C3, as the code has it. The \<open>raw_line\<close> of an entry is the line without its trailing
  whitespace: \<^verbatim>\<open>line.rstrip()\<close> removes the newline and every blank before it, and keeps
  the text up to the last character that is not whitespace. The sample run shows a line
  whose trailing blanks are lost, so \<open>raw_line\<close> is not the line less its newline only.
\<close>

theorem raw_line_counterexample:
  "fst (advanced_cobol_processor sample_env ''layout.json'' ''data.txt'' None)
     = Inr (Some sample_records, sample_errors)
   \<and> sample_lines ! 2 = ''00043X  \<newline>''
   \<and> sample_errors ! 0 =
       ErrDict [(''line_number'', PyInt 3),
                (''error'', PyStr (record_error_msg 3 (invalid_status ''X''))),
                (''raw_line'', PyStr ''00043X'')]
   \<and> strip_trailing_newline (sample_lines ! 2) = ''00043X  ''
   \<and> ''00043X'' \<noteq> strip_trailing_newline (sample_lines ! 2)"
  by (simp add: sample_run_fst sample_line_facts sample_errors_nth strip_trailing_newline_def)

theorem raw_line_without_trailing_whitespace:
  assumes "advanced_cobol_processor env layout_path cobol_data_path output_json_path
             = (Inr (Some records, errors), lg)"
    and "read_data env cobol_data_path = Inr (lines, failure)"
    and "ErrDict d \<in> set errors"
  shows "\<exists>i < length lines.
           map_of d ''line_number'' = Some (PyInt (int i + 1))
         \<and> map_of d ''raw_line'' = Some (PyStr (rstrip (lines ! i)))
         \<and> (\<exists>ws. lines ! i = rstrip (lines ! i) @ ws \<and> (\<forall>c \<in> set ws. isspace c))
         \<and> rstrip (lines ! i) \<noteq> []
         \<and> \<not> isspace (last (rstrip (lines ! i)))"
proof -
  from assms(1) obtain layout where layout: "load_layout env layout_path = Inr layout"
    by (rule run_completed)
  from completed_entry_shape [OF assms(1,2) layout assms(3)] obtain i e where
    i: "i < length lines" "strip (lines ! i) \<noteq> []"
    and d: "d = [(''line_number'', PyInt (int i + 1)),
                (''error'', PyStr (line_message (int i + 1) e)),
                (''raw_line'', PyStr (rstrip (lines ! i)))]"
    by blast
  from i(2) have ne: "rstrip (lines ! i) \<noteq> []"
    by (simp add: strip_Nil_iff rstrip_Nil_iff)
  from i(1) d ne rstrip_decomp [of "lines ! i"] rstrip_last [OF ne] show ?thesis
    by (intro exI [of _ i]) simp
qed

theorem raw_line_without_trailing_whitespace_witness:
  "ErrDict [(''line_number'', PyInt 3),
            (''error'', PyStr (record_error_msg 3 (invalid_status ''X''))),
            (''raw_line'', PyStr ''00043X'')] \<in> set sample_errors
   \<and> (\<exists>i < length sample_lines.
         map_of [(''line_number'', PyInt 3),
            (''error'', PyStr (record_error_msg 3 (invalid_status ''X''))),
            (''raw_line'', PyStr ''00043X'')] ''raw_line'' = Some (PyStr (rstrip (sample_lines ! i)))
       \<and> rstrip (sample_lines ! i) \<noteq> []
       \<and> \<not> isspace (last (rstrip (sample_lines ! i))))"
proof -
  have m: "ErrDict [(''line_number'', PyInt 3),
            (''error'', PyStr (record_error_msg 3 (invalid_status ''X''))),
            (''raw_line'', PyStr ''00043X'')] \<in> set sample_errors"
    by (simp add: sample_errors_def error_dict_def rstrip_def isspace_def whitespace_chars_def)
  from raw_line_without_trailing_whitespace [OF sample_run sample_env_simps(2) m] m
  show ?thesis by blast
qed




end
